theory Spec2Isabelle
  imports Complex_Main "HOL-Library.Word" "HOL-Library.Sublist"
begin

unbundle bit_operations_syntax

section \<open>JavaScript numbers, byte buffers and failures\<close>

text \<open>
  A JavaScript \<open>number\<close> that the program stores or receives is modelled as a
  real, one of the finite values. Where a property is about the very value an arithmetic
  expression yields, as for \<open>calculateIoU\<close>, the arithmetic is that of IEEE doubles,
  defined in the next section; elsewhere (the product \<open>intensity * 255\<close>, the
  products and differences that decode a candidate, the quotients of the preprocessing)
  it is exact, and \<open>NaN\<close>, the infinities and the rounding are left out there. Bytes
  are 8-bit words; an \<open>ArrayBuffer\<close> seen through a \<open>DataView\<close> is a list of
  bytes.
\<close>

type_synonym number = real
type_synonym u8 = "8 word"

text \<open>
  A thrown exception or a rejected promise is the left injection of a sum, carrying the
  \<open>message\<close> of the JavaScript error.
\<close>

datatype error = Error string

fun message :: "error \<Rightarrow> string" where
  "message (Error m) = m"

text \<open>
  The integer conversion that every \<open>DataView\<close> setter applies to its argument
  first: the fraction is dropped, towards zero.
\<close>

definition ToIntegerOrInfinity :: "number \<Rightarrow> int" where
  "ToIntegerOrInfinity v = (if v < 0 then \<lceil>v\<rceil> else \<lfloor>v\<rfloor>)"

definition Math_floor :: "number \<Rightarrow> number" where
  "Math_floor v = of_int \<lfloor>v\<rfloor>"

text \<open>
  \<open>DataView.setUint8\<close>, \<open>setInt8\<close> and \<open>setUint16\<close> store the integer modulo
  \<open>2 ^ 8\<close> or \<open>2 ^ 16\<close>; they never reject a value for its size. The signed and
  the unsigned 8-bit setter store the same bit pattern. The controller calls them at
  constant offsets inside the buffer it has just allocated, so the \<open>RangeError\<close> of
  an offset beyond the buffer cannot arise there.
\<close>

definition setUint8 :: "u8 list \<Rightarrow> nat \<Rightarrow> number \<Rightarrow> u8 list" where
  "setUint8 view byteOffset v = view[byteOffset := word_of_int (ToIntegerOrInfinity v)]"

definition setInt8 :: "u8 list \<Rightarrow> nat \<Rightarrow> number \<Rightarrow> u8 list" where
  "setInt8 view byteOffset v = view[byteOffset := word_of_int (ToIntegerOrInfinity v)]"

definition setUint16 :: "u8 list \<Rightarrow> nat \<Rightarrow> number \<Rightarrow> bool \<Rightarrow> u8 list" where
  "setUint16 view byteOffset v littleEndian =
     (let w = (word_of_int (ToIntegerOrInfinity v) :: 16 word);
          lo = (ucast w :: u8);
          hi = (ucast (drop_bit 8 w) :: u8)
      in if littleEndian
         then view[byteOffset := lo, Suc byteOffset := hi]
         else view[byteOffset := hi, Suc byteOffset := lo])"

section \<open>IEEE double arithmetic\<close>

text \<open>
  The result of an arithmetic operation on doubles: a finite double, given by its value,
  an infinity, or \<open>NaN\<close>. Zero has no sign here: \<open>-0\<close> and \<open>+0\<close> are one
  value, as they are for \<open>==\<close> and \<open><=\<close>.
\<close>

datatype jsnumber = Fin real | PInf | NInf | NaN

definition pow2 :: "int \<Rightarrow> real" where
  "pow2 k = (if 0 \<le> k then 2 ^ nat k else 1 / 2 ^ nat (- k))"

text \<open>
  The exponent of the last bit of the double nearest to a magnitude \<open>s\<close>: the \<open>k\<close>
  with \<open>2 ^ 52 \<le> s / 2 ^ k < 2 ^ 53\<close>, found by halving (\<open>exponent_up\<close>) or by
  doubling (\<open>exponent_down\<close>), but never below -1074, the exponent of the last bit of
  the subnormal numbers.
\<close>

fun exponent_down :: "nat \<Rightarrow> real \<Rightarrow> int" where
  "exponent_down 0 s = 0"
| "exponent_down (Suc n) s = (if 2 ^ 52 \<le> s then 0 else exponent_down n (2 * s) - 1)"

function exponent_up :: "real \<Rightarrow> int" where
  "exponent_up s = (if s < 2 ^ 53 then 0 else exponent_up (s / 2) + 1)"
  by pat_completeness auto
termination
proof (relation "measure (\<lambda>s. nat \<lfloor>s\<rfloor>)")
  show "wf (measure (\<lambda>s. nat \<lfloor>s\<rfloor>))"
    by simp
next
  fix s :: real
  assume "\<not> s < 2 ^ 53"
  then have "2 \<le> s"
    by simp
  then have "\<lfloor>s / 2\<rfloor> < \<lfloor>s\<rfloor>" and "0 < \<lfloor>s\<rfloor>"
    by linarith+
  then show "(s / 2, s) \<in> measure (\<lambda>s. nat \<lfloor>s\<rfloor>)"
    by simp
qed

definition binade :: "real \<Rightarrow> int" where
  "binade s = (if s < 2 ^ 53 then exponent_down 1074 s else exponent_up s)"

text \<open>Rounding to the nearest integer, a tie going to the even one.\<close>

definition roundTiesToEven :: "real \<Rightarrow> int" where
  "roundTiesToEven t =
     (let f = \<lfloor>t\<rfloor>; d = t - of_int f
      in if d < 1 / 2 then f else if 1 / 2 < d then f + 1 else if even f then f else f + 1)"

text \<open>
  The double nearest to a real, ties to even, as every operation on doubles rounds its
  exact result; a result of magnitude \<open>2 ^ 1024\<close> or more is an infinity.
\<close>

definition round_double :: "real \<Rightarrow> jsnumber" where
  "round_double r =
     (let k = binade \<bar>r\<bar>;
          m = roundTiesToEven (\<bar>r\<bar> / pow2 k);
          v = sgn r * of_int m * pow2 k
      in if 2 ^ 1024 \<le> \<bar>v\<bar> then (if 0 < r then PInf else NInf) else Fin v)"



text \<open>The comparisons \<open><=\<close> and \<open><\<close>: false when an operand is \<open>NaN\<close>.\<close>

fun fle :: "jsnumber \<Rightarrow> jsnumber \<Rightarrow> bool" where
  "fle NaN b = False"
| "fle a NaN = False"
| "fle NInf b = True"
| "fle a PInf = True"
| "fle (Fin a) (Fin b) = (a \<le> b)"
| "fle a b = False"

definition flt :: "jsnumber \<Rightarrow> jsnumber \<Rightarrow> bool" where
  "flt a b = (fle a b \<and> \<not> fle b a)"

definition Math_max :: "jsnumber \<Rightarrow> jsnumber \<Rightarrow> jsnumber" where
  "Math_max a b = (if a = NaN \<or> b = NaN then NaN else if fle a b then b else a)"

definition Math_min :: "jsnumber \<Rightarrow> jsnumber \<Rightarrow> jsnumber" where
  "Math_min a b = (if a = NaN \<or> b = NaN then NaN else if fle a b then a else b)"

text \<open>
  The four operations. On finite operands the exact result is rounded; the other cases
  are those of IEEE 754. A finite number divided by zero is an infinity of the sign of
  the dividend, the zero being taken as \<open>+0\<close>: in \<open>calculateIoU\<close> the divisor is a
  difference, which is \<open>+0\<close> when it is zero.
\<close>

fun fneg :: "jsnumber \<Rightarrow> jsnumber" where
  "fneg (Fin a) = Fin (- a)"
| "fneg PInf = NInf"
| "fneg NInf = PInf"
| "fneg NaN = NaN"

fun fadd :: "jsnumber \<Rightarrow> jsnumber \<Rightarrow> jsnumber" where
  "fadd NaN b = NaN"
| "fadd a NaN = NaN"
| "fadd (Fin a) (Fin b) = round_double (a + b)"
| "fadd PInf NInf = NaN"
| "fadd NInf PInf = NaN"
| "fadd PInf b = PInf"
| "fadd a PInf = PInf"
| "fadd NInf b = NInf"
| "fadd a NInf = NInf"

definition fsub :: "jsnumber \<Rightarrow> jsnumber \<Rightarrow> jsnumber" where
  "fsub a b = fadd a (fneg b)"

fun fmul :: "jsnumber \<Rightarrow> jsnumber \<Rightarrow> jsnumber" where
  "fmul NaN b = NaN"
| "fmul a NaN = NaN"
| "fmul (Fin a) (Fin b) = round_double (a * b)"
| "fmul (Fin a) PInf = (if a = 0 then NaN else if 0 < a then PInf else NInf)"
| "fmul (Fin a) NInf = (if a = 0 then NaN else if 0 < a then NInf else PInf)"
| "fmul PInf (Fin b) = (if b = 0 then NaN else if 0 < b then PInf else NInf)"
| "fmul NInf (Fin b) = (if b = 0 then NaN else if 0 < b then NInf else PInf)"
| "fmul PInf PInf = PInf"
| "fmul NInf NInf = PInf"
| "fmul PInf NInf = NInf"
| "fmul NInf PInf = NInf"

fun fdiv :: "jsnumber \<Rightarrow> jsnumber \<Rightarrow> jsnumber" where
  "fdiv NaN b = NaN"
| "fdiv a NaN = NaN"
| "fdiv (Fin a) (Fin b) =
     (if b = 0 then (if a = 0 then NaN else if 0 < a then PInf else NInf)
      else round_double (a / b))"
| "fdiv (Fin a) PInf = Fin 0"
| "fdiv (Fin a) NInf = Fin 0"
| "fdiv PInf (Fin b) = (if 0 \<le> b then PInf else NInf)"
| "fdiv NInf (Fin b) = (if 0 \<le> b then NInf else PInf)"
| "fdiv a b = NaN"

section \<open>Types of the haptic protocol (types/index.ts)\<close>

record DeviceCapabilities =
  vibration :: bool
  temperature :: bool
  pressure :: bool
  flex :: bool

record FingerDevice =
  dev_id :: string
  name :: string
  connected :: bool
  batteryLevel :: nat
  firmwareVersion :: string
  capabilities :: DeviceCapabilities

record VibrationConfig =
  intensity :: number
  frequency :: number
  pattern :: string
  duration :: number

record TemperatureConfig =
  target :: number
  rampTime :: number
  holdTime :: number

text \<open>
  The optional sub-configs of a profile are options. The fields \<open>vibration\<close>,
  \<open>temperature\<close>, \<open>duration\<close> and \<open>intensity\<close> of the source's
  \<open>HapticProfile\<close> carry the prefix \<open>profile_\<close> here, the plain names being
  those of the records above.
\<close>

record HapticProfile =
  profile_vibration :: "VibrationConfig option"
  profile_temperature :: "TemperatureConfig option"
  profile_duration :: number
  profile_intensity :: number

section \<open>Protocol framer (utils/hapticController.ts)\<close>

datatype CommandType = VIBRATION | TEMPERATURE | STOP_ALL | GET_STATUS | CALIBRATE

fun CommandType_code :: "CommandType \<Rightarrow> number" where
  "CommandType_code VIBRATION = 1"
| "CommandType_code TEMPERATURE = 2"
| "CommandType_code STOP_ALL = 3"
| "CommandType_code GET_STATUS = 4"
| "CommandType_code CALIBRATE = 5"

definition patterns :: "(string \<times> number) list" where
  "patterns = [(''sharp'', 1), (''soft'', 2), (''medium'', 3), (''pulse'', 4)]"

text \<open>\<open>patterns[pattern] || 1\<close>: a name that is not in the table has code 1.\<close>

definition getPatternCode :: "string \<Rightarrow> number" where
  "getPatternCode p = (case map_of patterns p of None \<Rightarrow> 1 | Some c \<Rightarrow> c)"

text \<open>
  \<open>calculateChecksum\<close>: the loop adds the bytes up in a number, and the result is
  \<open>sum & 0xFF\<close>.
\<close>

definition calculateChecksum :: "u8 list \<Rightarrow> number" where
  "calculateChecksum data = of_int ((fold (\<lambda>b sum. sum + uint b) data 0) AND 255)"

text \<open>
  The three frames. Each is the block of \<open>sendVibration\<close>, \<open>sendTemperature\<close>
  and \<open>stopAllFeedback\<close> that allocates the buffer and fills it, write by write; the
  checksum is computed over \<open>new Uint8Array(command, 0, 7)\<close> (or \<open>0, 1\<close>), the
  bytes before the last.
\<close>

definition vibrationCommand :: "VibrationConfig \<Rightarrow> u8 list" where
  "vibrationCommand config =
     (let view = replicate 8 0;
          view = setUint8 view 0 (CommandType_code VIBRATION);
          view = setUint8 view 1 (Math_floor (intensity config * 255));
          view = setUint16 view 2 (frequency config) True;
          view = setUint16 view 4 (duration config) True;
          view = setUint8 view 6 (getPatternCode (pattern config));
          view = setUint8 view 7 (calculateChecksum (take 7 view))
      in view)"

definition temperatureCommand :: "TemperatureConfig \<Rightarrow> u8 list" where
  "temperatureCommand config =
     (let view = replicate 8 0;
          view = setUint8 view 0 (CommandType_code TEMPERATURE);
          view = setInt8 view 1 (target config);
          view = setUint16 view 2 (rampTime config) True;
          view = setUint16 view 4 (holdTime config) True;
          view = setUint8 view 6 0;
          view = setUint8 view 7 (calculateChecksum (take 7 view))
      in view)"

definition stopAllCommand :: "u8 list" where
  "stopAllCommand =
     (let view = replicate 2 0;
          view = setUint8 view 0 (CommandType_code STOP_ALL);
          view = setUint8 view 1 (calculateChecksum (take 1 view))
      in view)"

section \<open>The wireless transport (Web Bluetooth interfaces declared in hapticController.ts)\<close>

text \<open>
  The transport is outside the program. Each object is a record of the members the
  controller calls; a promise that resolves is \<open>Inr\<close> of its value (or \<open>None\<close>:
  no error, for \<open>Promise<void>\<close>), a promise that rejects is \<open>Inl\<close> (or
  \<open>Some\<close>) of the error.
\<close>

record BluetoothRemoteGATTCharacteristic =
  writeValue :: "u8 list \<Rightarrow> error option"
  readValue :: "error + u8 list"

record BluetoothRemoteGATTService =
  getCharacteristic :: "string \<Rightarrow> error + BluetoothRemoteGATTCharacteristic"

record BluetoothRemoteGATTServer =
  getPrimaryService :: "string \<Rightarrow> error + BluetoothRemoteGATTService"

text \<open>
  \<open>gatt\<close> is optional in the interface: \<open>None\<close> is a device without it, and
  \<open>Some r\<close> is one whose \<open>gatt.connect()\<close> settles as \<open>r\<close>.
\<close>

record BluetoothDevice =
  device_id :: string
  device_name :: "string option"
  gatt :: "(error + BluetoothRemoteGATTServer) option"

text \<open>\<open>navigator.bluetooth\<close>: absent, or its \<open>requestDevice\<close> by name filter.\<close>

type_synonym Bluetooth = "(string \<Rightarrow> error + BluetoothDevice) option"

definition HAPTIC_SERVICE_UUID :: string where
  "HAPTIC_SERVICE_UUID = ''12345678-1234-1234-1234-123456789abc''"

definition VIBRATION_CHARACTERISTIC_UUID :: string where
  "VIBRATION_CHARACTERISTIC_UUID = ''12345678-1234-1234-1234-123456789abd''"

definition TEMPERATURE_CHARACTERISTIC_UUID :: string where
  "TEMPERATURE_CHARACTERISTIC_UUID = ''12345678-1234-1234-1234-123456789abe''"

definition BATTERY_CHARACTERISTIC_UUID :: string where
  "BATTERY_CHARACTERISTIC_UUID = ''12345678-1234-1234-1234-123456789abf''"

definition STATUS_CHARACTERISTIC_UUID :: string where
  "STATUS_CHARACTERISTIC_UUID = ''12345678-1234-1234-1234-123456789ac0''"

section \<open>Device session manager (class HapticController)\<close>

text \<open>
  The four events, with their payloads. The payload of \<open>connected\<close> is
  \<open>this.deviceInfo\<close>, which may be \<open>null\<close>. The payload of \<open>error\<close> is the
  type code and the message.
\<close>

datatype event =
  connected_event "FingerDevice option"
| disconnected_event
| batteryUpdate_event nat
| error_event string string

text \<open>
  The fields of the class, and two traces of what the controller does to the outside:
  \<open>emitted\<close>, the events passed to \<open>emit\<close> (the registered listeners are called
  with them), and \<open>written\<close>, the calls of \<open>writeValue\<close>, each with the UUID of
  the characteristic and the bytes, in order.
\<close>

record HapticController =
  device :: "BluetoothDevice option"
  server :: "BluetoothRemoteGATTServer option"
  service :: "BluetoothRemoteGATTService option"
  characteristics :: "string \<rightharpoonup> BluetoothRemoteGATTCharacteristic"
  isConnected :: bool
  deviceInfo :: "FingerDevice option"
  emitted :: "event list"
  written :: "(string \<times> u8 list) list"

definition new_HapticController :: HapticController where
  "new_HapticController =
     \<lparr>device = None, server = None, service = None, characteristics = Map.empty,
      isConnected = False, deviceInfo = None, emitted = [], written = []\<rparr>"

definition emit :: "HapticController \<Rightarrow> event \<Rightarrow> HapticController" where
  "emit this ev = this\<lparr>emitted := emitted this @ [ev]\<rparr>"

definition characteristicUUIDs :: "string list" where
  "characteristicUUIDs =
     [VIBRATION_CHARACTERISTIC_UUID, TEMPERATURE_CHARACTERISTIC_UUID,
      BATTERY_CHARACTERISTIC_UUID, STATUS_CHARACTERISTIC_UUID]"

text \<open>
  \<open>initializeCharacteristics\<close>: one \<open>try\<close> per UUID; a characteristic that cannot
  be had is logged and skipped. (\<open>this.service!\<close> on a controller without service
  is a \<open>TypeError\<close> inside that \<open>try\<close>, so it is skipped too.)
\<close>

definition initializeCharacteristics :: "HapticController \<Rightarrow> HapticController" where
  "initializeCharacteristics this0 =
     fold (\<lambda>uuid this.
             case service this of
               None \<Rightarrow> this
             | Some svc \<Rightarrow>
                (case getCharacteristic svc uuid of
                   Inl e \<Rightarrow> this
                 | Inr characteristic \<Rightarrow>
                     this\<lparr>characteristics := (characteristics this)(uuid \<mapsto> characteristic)\<rparr>))
          characteristicUUIDs this0"

text \<open>Decimal digits of a number, as a template literal prints a byte.\<close>

fun decimal :: "nat \<Rightarrow> string" where
  "decimal n =
     (if n < 10 then [char_of (48 + n)] else decimal (n div 10) @ [char_of (48 + n mod 10)])"

record DeviceStatus =
  status_batteryLevel :: nat
  status_firmwareVersion :: string
  status_capabilities :: DeviceCapabilities

text \<open>
  \<open>parseStatusData\<close> reads bytes 0 to 4 with \<open>getUint8\<close>, which throws a
  \<open>RangeError\<close> beyond the end of the view.
\<close>

definition parseStatusData :: "u8 list \<Rightarrow> error + DeviceStatus" where
  "parseStatusData data =
     (if length data < 5 then Inl (Error ''Offset is outside the bounds of the DataView'')
      else Inr \<lparr>status_batteryLevel = unat (data ! 0),
                status_firmwareVersion =
                  decimal (unat (data ! 1)) @ ''.'' @ decimal (unat (data ! 2)) @ ''.''
                    @ decimal (unat (data ! 3)),
                status_capabilities =
                  \<lparr>vibration = (data ! 4 AND 1 \<noteq> 0),
                   temperature = (data ! 4 AND 2 \<noteq> 0),
                   pressure = (data ! 4 AND 4 \<noteq> 0),
                   flex = (data ! 4 AND 8 \<noteq> 0)\<rparr>\<rparr>)"

text \<open>\<open>this.device!.name || 'FingerSuit'\<close>: an absent or empty name gives the default.\<close>

definition nameOrDefault :: "BluetoothDevice \<Rightarrow> string" where
  "nameOrDefault dev =
     (case device_name dev of None \<Rightarrow> ''FingerSuit''
      | Some n \<Rightarrow> if n = [] then ''FingerSuit'' else n)"

definition defaultDeviceInfo :: "BluetoothDevice \<Rightarrow> FingerDevice" where
  "defaultDeviceInfo dev =
     \<lparr>dev_id = device_id dev, name = nameOrDefault dev, connected = True,
      batteryLevel = 100, firmwareVersion = ''1.0.0'',
      capabilities = \<lparr>vibration = True, temperature = True, pressure = False, flex = False\<rparr>\<rparr>"

text \<open>
  \<open>fetchDeviceInfo\<close>. The record is assigned inside \<open>if (statusCharacteristic)\<close>;
  the default record is assigned in the \<open>catch\<close> block, which runs when the read or
  the parse throws. With no status characteristic neither assignment runs, and
  \<open>deviceInfo\<close> is left as it was. (\<open>this.device!.id\<close> on a controller without
  device throws in the \<open>try\<close> and again in the \<open>catch\<close>: the call rejects.)
\<close>

definition fetchDeviceInfo :: "HapticController \<Rightarrow> error + HapticController" where
  "fetchDeviceInfo this =
     (case characteristics this STATUS_CHARACTERISTIC_UUID of
        None \<Rightarrow> Inr this
      | Some statusCharacteristic \<Rightarrow>
         (case device this of
            None \<Rightarrow> Inl (Error ''Cannot read properties of null'')
          | Some dev \<Rightarrow>
             (case readValue statusCharacteristic of
                Inl e \<Rightarrow> Inr (this\<lparr>deviceInfo := Some (defaultDeviceInfo dev)\<rparr>)
              | Inr statusData \<Rightarrow>
                 (case parseStatusData statusData of
                    Inl e \<Rightarrow> Inr (this\<lparr>deviceInfo := Some (defaultDeviceInfo dev)\<rparr>)
                  | Inr status \<Rightarrow>
                      Inr (this\<lparr>deviceInfo := Some
                        \<lparr>dev_id = device_id dev, name = nameOrDefault dev, connected = True,
                         batteryLevel = status_batteryLevel status,
                         firmwareVersion = status_firmwareVersion status,
                         capabilities = status_capabilities status\<rparr>\<rparr>)))))"

text \<open>
  \<open>startBatteryMonitoring\<close> asks for notifications and registers its handler in a
  \<open>then\<close> callback, which runs after \<open>connect\<close> has gone on: no field of the
  controller changes in the call itself.
\<close>

definition startBatteryMonitoring :: "HapticController \<Rightarrow> HapticController" where
  "startBatteryMonitoring this = this"

text \<open>The \<open>catch\<close> block of \<open>connect\<close>.\<close>

definition connectFailed :: "HapticController \<Rightarrow> error \<Rightarrow> bool \<times> HapticController" where
  "connectFailed this e = (False, emit this (error_event ''CONNECTION_FAILED'' (message e)))"

text \<open>
  \<open>connect\<close>. Every step of the \<open>try\<close> block can throw; the fields assigned before
  the throw keep their new values. The messages of errors the controller raises itself
  are given in English.
\<close>

definition connect :: "Bluetooth \<Rightarrow> HapticController \<Rightarrow> string \<Rightarrow> bool \<times> HapticController" where
  "connect bluetooth this deviceName =
     (case bluetooth of
        None \<Rightarrow> connectFailed this (Error ''This browser does not support the Web Bluetooth API'')
      | Some requestDevice \<Rightarrow>
         (case requestDevice deviceName of
            Inl e \<Rightarrow> connectFailed this e
          | Inr dev \<Rightarrow>
             (let this = this\<lparr>device := Some dev\<rparr> in
              case gatt dev of
                None \<Rightarrow> connectFailed this (Error ''Cannot read properties of undefined'')
              | Some (Inl e) \<Rightarrow> connectFailed this e
              | Some (Inr srv) \<Rightarrow>
                 (let this = this\<lparr>server := Some srv\<rparr> in
                  case getPrimaryService srv HAPTIC_SERVICE_UUID of
                    Inl e \<Rightarrow> connectFailed this e
                  | Inr svc \<Rightarrow>
                     (let this = this\<lparr>service := Some svc\<rparr>;
                          this = initializeCharacteristics this
                      in case fetchDeviceInfo this of
                           Inl e \<Rightarrow> connectFailed this e
                         | Inr this \<Rightarrow>
                            (let this = startBatteryMonitoring this;
                                 this = this\<lparr>isConnected := True\<rparr>;
                                 this = emit this (connected_event (deviceInfo this))
                             in (True, this)))))))"

text \<open>
  \<open>!this.deviceInfo?.capabilities.vibration\<close>: true when there is no device record,
  or when its flag is false.
\<close>

definition supportsVibration :: "HapticController \<Rightarrow> bool" where
  "supportsVibration this =
     (case deviceInfo this of None \<Rightarrow> False | Some d \<Rightarrow> vibration (capabilities d))"

definition supportsTemperature :: "HapticController \<Rightarrow> bool" where
  "supportsTemperature this =
     (case deviceInfo this of None \<Rightarrow> False | Some d \<Rightarrow> temperature (capabilities d))"

definition sendVibration :: "HapticController \<Rightarrow> VibrationConfig \<Rightarrow> bool \<times> HapticController" where
  "sendVibration this config =
     (if \<not> isConnected this \<or> \<not> supportsVibration this then (False, this)
      else
        case characteristics this VIBRATION_CHARACTERISTIC_UUID of
          None \<Rightarrow>
            (False, emit this (error_event ''VIBRATION_FAILED'' ''vibration characteristic unavailable''))
        | Some characteristic \<Rightarrow>
           (let command = vibrationCommand config;
                this = this\<lparr>written := written this @ [(VIBRATION_CHARACTERISTIC_UUID, command)]\<rparr>
            in case writeValue characteristic command of
                 None \<Rightarrow> (True, this)
               | Some e \<Rightarrow> (False, emit this (error_event ''VIBRATION_FAILED'' (message e)))))"

definition sendTemperature :: "HapticController \<Rightarrow> TemperatureConfig \<Rightarrow> bool \<times> HapticController" where
  "sendTemperature this config =
     (if \<not> isConnected this \<or> \<not> supportsTemperature this then (False, this)
      else
        case characteristics this TEMPERATURE_CHARACTERISTIC_UUID of
          None \<Rightarrow>
            (False, emit this (error_event ''TEMPERATURE_FAILED'' ''temperature characteristic unavailable''))
        | Some characteristic \<Rightarrow>
           (let command = temperatureCommand config;
                this = this\<lparr>written := written this @ [(TEMPERATURE_CHARACTERISTIC_UUID, command)]\<rparr>
            in case writeValue characteristic command of
                 None \<Rightarrow> (True, this)
               | Some e \<Rightarrow> (False, emit this (error_event ''TEMPERATURE_FAILED'' (message e)))))"

text \<open>
  \<open>sendHapticFeedback\<close>: the results of the sub-sends that were made are collected,
  and the answer is \<open>results.every(result => result)\<close>.
\<close>

definition sendHapticFeedback :: "HapticController \<Rightarrow> HapticProfile \<Rightarrow> bool \<times> HapticController" where
  "sendHapticFeedback this0 profile =
     (let results = [];
          (results, this) =
            (case profile_vibration profile of
               None \<Rightarrow> (results, this0)
             | Some v \<Rightarrow> (let (r, this) = sendVibration this0 v in (results @ [r], this)));
          (results, this) =
            (case profile_temperature profile of
               None \<Rightarrow> (results, this)
             | Some t \<Rightarrow> (let (r, this) = sendTemperature this t in (results @ [r], this)))
      in (list_all (\<lambda>result. result) results, this))"

definition stopAllFeedback :: "HapticController \<Rightarrow> bool \<times> HapticController" where
  "stopAllFeedback this =
     (if \<not> isConnected this then (False, this)
      else
        case characteristics this VIBRATION_CHARACTERISTIC_UUID of
          None \<Rightarrow> (True, this)
        | Some vibrationCharacteristic \<Rightarrow>
           (let command = stopAllCommand;
                this = this\<lparr>written := written this @ [(VIBRATION_CHARACTERISTIC_UUID, command)]\<rparr>
            in case writeValue vibrationCharacteristic command of
                 None \<Rightarrow> (True, this)
               | Some e \<Rightarrow> (False, this)))"

section \<open>Types of the detector (types/index.ts)\<close>

text \<open>
  The fields \<open>x\<close> and \<open>y\<close> of \<open>Point2D\<close> and \<open>BoundingBox\<close> are
  \<open>point_x\<close>, \<open>point_y\<close>, \<open>box_x\<close> and \<open>box_y\<close>; the fields \<open>id\<close> and
  \<open>class\<close> of \<open>DetectionResult\<close> are \<open>det_id\<close> and \<open>className\<close>.
\<close>

record Point2D =
  point_x :: number
  point_y :: number

record BoundingBox =
  box_x :: number
  box_y :: number
  width :: number
  height :: number

record DetectionResult =
  det_id :: string
  className :: string
  confidence :: number
  bbox :: BoundingBox
  center :: Point2D
  timestamp :: nat

record YOLOConfig =
  modelUrl :: string
  confidenceThreshold :: number
  nmsThreshold :: number
  targetClasses :: "string list"
  inputSize :: nat

record ImageData =
  image_width :: nat
  image_height :: nat
  image_data :: "u8 list"

section \<open>Detection postprocessor (class YOLO11Detector)\<close>

definition classNames :: "string list" where
  "classNames =
     [''person'', ''bicycle'', ''car'', ''motorcycle'', ''airplane'', ''bus'', ''train'',
      ''truck'', ''boat'', ''traffic light'', ''fire hydrant'', ''stop sign'',
      ''parking meter'', ''bench'', ''bird'', ''cat'', ''dog'', ''horse'', ''sheep'',
      ''cow'', ''elephant'', ''bear'', ''zebra'', ''giraffe'', ''backpack'', ''umbrella'',
      ''handbag'', ''tie'', ''suitcase'', ''frisbee'', ''skis'', ''snowboard'',
      ''sports ball'', ''kite'', ''baseball bat'', ''baseball glove'', ''skateboard'',
      ''surfboard'', ''tennis racket'', ''bottle'', ''wine glass'', ''cup'', ''fork'',
      ''knife'', ''spoon'', ''bowl'', ''banana'', ''apple'', ''sandwich'', ''orange'',
      ''broccoli'', ''carrot'', ''hot dog'', ''pizza'', ''donut'', ''cake'', ''chair'',
      ''couch'', ''potted plant'', ''bed'', ''dining table'', ''toilet'', ''tv'',
      ''laptop'', ''mouse'', ''remote'', ''keyboard'', ''cell phone'', ''microwave'',
      ''oven'', ''toaster'', ''sink'', ''refrigerator'', ''book'', ''clock'', ''vase'',
      ''scissors'', ''teddy bear'', ''hair drier'', ''toothbrush'']"

text \<open>
  \<open>calculateIoU\<close>, statement by statement, in the arithmetic of doubles: every sum,
  difference, product and quotient is rounded, and the result can be an infinity or
  \<open>NaN\<close>.
\<close>

definition calculateIoU :: "BoundingBox \<Rightarrow> BoundingBox \<Rightarrow> jsnumber" where
  "calculateIoU box1 box2 =
     (let x1 = Math_max (Fin (box_x box1)) (Fin (box_x box2));
          y1 = Math_max (Fin (box_y box1)) (Fin (box_y box2));
          x2 = Math_min (fadd (Fin (box_x box1)) (Fin (width box1)))
                        (fadd (Fin (box_x box2)) (Fin (width box2)));
          y2 = Math_min (fadd (Fin (box_y box1)) (Fin (height box1)))
                        (fadd (Fin (box_y box2)) (Fin (height box2)))
      in if fle x2 x1 \<or> fle y2 y1 then Fin 0
         else (let intersection = fmul (fsub x2 x1) (fsub y2 y1);
                   area1 = fmul (Fin (width box1)) (Fin (height box1));
                   area2 = fmul (Fin (width box2)) (Fin (height box2));
                   union = fsub (fadd area1 area2) intersection
               in fdiv intersection union))"

text \<open>
  The inner loop of \<open>applyNMS\<close>, for the kept index \<open>i\<close>: every later index
  \<open>j\<close> that is not suppressed yet is suppressed when the IoU of box \<open>i\<close> with box
  \<open>j\<close> is above the threshold (\<open>iou > threshold\<close>, which is
  \<open>threshold < iou\<close>).
\<close>

definition suppressOverlapping ::
  "number \<Rightarrow> DetectionResult list \<Rightarrow> nat \<Rightarrow> nat set \<Rightarrow> nat set" where
  "suppressOverlapping threshold detections i suppressed0 =
     fold (\<lambda>j suppressed.
             if j \<in> suppressed then suppressed
             else (let iou = calculateIoU (bbox (detections ! i)) (bbox (detections ! j))
                   in if flt (Fin threshold) iou then insert j suppressed else suppressed))
          [Suc i ..< length detections] suppressed0"

text \<open>
  \<open>applyNMS\<close>. \<open>Array.prototype.sort\<close> is stable, and the comparator
  \<open>b.confidence - a.confidence\<close> puts the higher confidence first: this is the stable
  insertion sort \<open>sort_key\<close> on the negated confidence. The outer loop runs over the
  indices of the sorted array with the list \<open>keep\<close> and the set \<open>suppressed\<close>.
\<close>

definition applyNMS :: "YOLOConfig \<Rightarrow> DetectionResult list \<Rightarrow> DetectionResult list" where
  "applyNMS config detections0 =
     (if length detections0 = 0 then []
      else (let detections = sort_key (\<lambda>d. - confidence d) detections0;
                (keep, suppressed) =
                  fold (\<lambda>i (keep, suppressed).
                          if i \<in> suppressed then (keep, suppressed)
                          else (keep @ [detections ! i],
                                suppressOverlapping (nmsThreshold config) detections i suppressed))
                       [0 ..< length detections] ([], {})
            in keep))"

text \<open>
  The loop over the 80 class scores of the record at \<open>offset\<close>, from
  \<open>maxClassConfidence = 0\<close> and \<open>maxClassIndex = 0\<close>: a score replaces the
  maximum only when it is strictly greater.
\<close>

definition findMaxClass :: "number list \<Rightarrow> nat \<Rightarrow> number \<times> nat" where
  "findMaxClass output offset =
     fold (\<lambda>j (maxClassConfidence, maxClassIndex).
             (let classConfidence = output ! (offset + 5 + j)
              in if classConfidence > maxClassConfidence then (classConfidence, j)
                 else (maxClassConfidence, maxClassIndex)))
          [0 ..< 80] (0, 0)"

text \<open>
  What the body of the loop of \<open>postprocessResults\<close> does with candidate \<open>i\<close>:
  one of its three \<open>continue\<close> statements, or the \<open>push\<close> of a detection.
\<close>

datatype candidate =
  LowObjectness
| LowConfidence
| NotTarget
| Detection DetectionResult

text \<open>
  \<open>Date.now()\<close> is read twice for a detection that is pushed, for the \<open>id\<close> and
  then for the \<open>timestamp\<close>. The clock is a function \<open>now\<close> from the number of
  readings made so far in the call to the milliseconds read; \<open>calls\<close> is that number.
\<close>

definition decodeCandidate ::
  "YOLOConfig \<Rightarrow> (nat \<Rightarrow> nat) \<Rightarrow> nat \<Rightarrow> number list \<Rightarrow> number \<Rightarrow> number \<Rightarrow> nat \<Rightarrow> candidate" where
  "decodeCandidate config now calls output scaleX scaleY i =
     (let offset = i * 85;
          centerX = output ! offset * scaleX;
          centerY = output ! (offset + 1) * scaleY;
          w = output ! (offset + 2) * scaleX;
          h = output ! (offset + 3) * scaleY;
          conf = output ! (offset + 4)
      in if conf < confidenceThreshold config then LowObjectness
         else (let (maxClassConfidence, maxClassIndex) = findMaxClass output offset;
                   finalConfidence = conf * maxClassConfidence
               in if finalConfidence < confidenceThreshold config then LowConfidence
                  else (let name = classNames ! maxClassIndex
                        in if name \<notin> set (targetClasses config) then NotTarget
                           else (let x = centerX - w / 2;
                                     y = centerY - h / 2
                                 in Detection
                                      \<lparr>det_id = name @ ''_'' @ decimal (now calls) @ ''_'' @ decimal i,
                                       className = name,
                                       confidence = finalConfidence,
                                       bbox = \<lparr>box_x = x, box_y = y, width = w, height = h\<rparr>,
                                       center = \<lparr>point_x = centerX, point_y = centerY\<rparr>,
                                       timestamp = now (Suc calls)\<rparr>))))"

text \<open>
  \<open>postprocessResults\<close>. The records are the complete ones: the output is taken to
  have a length that is a multiple of 85, the layout the detector is written for, so that
  \<open>output.length / 85\<close> is \<open>length output div 85\<close> and every read is inside the array.
  (Past the end a \<open>Float32Array\<close> reads \<open>undefined\<close>, which is no number of this
  model; the properties below are stated for outputs of whole records.)
\<close>

definition postprocessResults ::
  "YOLOConfig \<Rightarrow> (nat \<Rightarrow> nat) \<Rightarrow> number list \<Rightarrow> number \<Rightarrow> number \<Rightarrow> DetectionResult list" where
  "postprocessResults config now output scaleX scaleY =
     (let numDetections = length output div 85;
          (detections, calls) =
            fold (\<lambda>i (detections, calls).
                    case decodeCandidate config now calls output scaleX scaleY i of
                      Detection d \<Rightarrow> (detections @ [d], calls + 2)
                    | _ \<Rightarrow> (detections, calls))
                 [0 ..< numDetections] ([], 0)
      in applyNMS config detections)"

section \<open>Detector session manager (class YOLO11Detector)\<close>

text \<open>
  The inference engine is outside the program: a session is its \<open>run\<close>, from the
  input tensor \<open>images\<close> to the named output tensors, or to an error. So is the
  canvas: \<open>canvas imageData inputSize\<close> is the RGBA data that \<open>getImageData\<close>
  returns after the image has been drawn scaled to \<open>inputSize\<close> by \<open>inputSize\<close>
  pixels, or the error thrown on the way.
\<close>

record InferenceSession =
  run :: "number list \<Rightarrow> error + (string \<rightharpoonup> number list)"

type_synonym Canvas = "ImageData \<Rightarrow> nat \<Rightarrow> error + u8 list"

record Preprocessed =
  tensor :: "number list"
  scaleX :: number
  scaleY :: number

text \<open>
  \<open>preprocessImage\<close>: the two scale factors, and the planar tensor, the red values
  of all pixels, then the green ones, then the blue ones, each divided by 255.
\<close>

definition preprocessImage :: "Canvas \<Rightarrow> YOLOConfig \<Rightarrow> ImageData \<Rightarrow> error + Preprocessed" where
  "preprocessImage canvas config imageData =
     (let size = inputSize config;
          sx = real (image_width imageData) / real size;
          sy = real (image_height imageData) / real size
      in case canvas imageData size of
           Inl e \<Rightarrow> Inl e
         | Inr scaledData \<Rightarrow>
             Inr \<lparr>tensor =
                    map (\<lambda>i. real (unat (scaledData ! (i * 4))) / 255) [0 ..< size * size]
                    @ map (\<lambda>i. real (unat (scaledData ! (i * 4 + 1))) / 255) [0 ..< size * size]
                    @ map (\<lambda>i. real (unat (scaledData ! (i * 4 + 2))) / 255) [0 ..< size * size],
                  scaleX = sx, scaleY = sy\<rparr>)"

record YOLO11Detector =
  session :: "InferenceSession option"
  config :: YOLOConfig
  isInitialized :: bool

definition new_YOLO11Detector :: "YOLOConfig \<Rightarrow> YOLO11Detector" where
  "new_YOLO11Detector c = \<lparr>session = None, config = c, isInitialized = False\<rparr>"

text \<open>
  \<open>detect\<close>. The guard throws; everything after it is inside \<open>try\<close>, and the
  \<open>catch\<close> block returns the empty array. \<open>results.output0.data\<close> throws when the
  session gave no output of that name.
\<close>

definition detect ::
  "Canvas \<Rightarrow> (nat \<Rightarrow> nat) \<Rightarrow> YOLO11Detector \<Rightarrow> ImageData \<Rightarrow> error + DetectionResult list" where
  "detect canvas now this imageData =
     (case session this of
        None \<Rightarrow> Inl (Error ''YOLO11 detector is not initialized'')
      | Some s \<Rightarrow>
         if \<not> isInitialized this then Inl (Error ''YOLO11 detector is not initialized'')
         else
           (case preprocessImage canvas (config this) imageData of
              Inl e \<Rightarrow> Inr []
            | Inr preprocessed \<Rightarrow>
               (case run s (tensor preprocessed) of
                  Inl e \<Rightarrow> Inr []
                | Inr results \<Rightarrow>
                   (case results ''output0'' of
                      None \<Rightarrow> Inr []
                    | Some output0 \<Rightarrow>
                        Inr (postprocessResults (config this) now output0
                               (scaleX preprocessed) (scaleY preprocessed))))))"

section \<open>Notions used to state the properties\<close>









section \<open>Example inputs\<close>

text \<open>
  A characteristic whose writes succeed; a controller holding the vibration and the
  temperature characteristic, connected or not, with or without the vibration capability;
  and a device whose service has every characteristic but the status one.
\<close>

definition exampleCharacteristic :: BluetoothRemoteGATTCharacteristic where
  "exampleCharacteristic = \<lparr>writeValue = (\<lambda>bytes. None), readValue = Inr [87, 1, 2, 3, 3]\<rparr>"

definition exampleInfo :: "bool \<Rightarrow> FingerDevice" where
  "exampleInfo vib =
     \<lparr>dev_id = ''d1'', name = ''FingerSuit'', connected = True,
      batteryLevel = 87, firmwareVersion = ''1.2.3'',
      capabilities = \<lparr>vibration = vib, temperature = True, pressure = False, flex = False\<rparr>\<rparr>"

definition exampleController :: "bool \<Rightarrow> bool \<Rightarrow> HapticController" where
  "exampleController conn vib =
     new_HapticController
       \<lparr>characteristics :=
          [VIBRATION_CHARACTERISTIC_UUID \<mapsto> exampleCharacteristic,
           TEMPERATURE_CHARACTERISTIC_UUID \<mapsto> exampleCharacteristic],
        isConnected := conn,
        deviceInfo := Some (exampleInfo vib)\<rparr>"

definition exampleService :: BluetoothRemoteGATTService where
  "exampleService =
     \<lparr>getCharacteristic = (\<lambda>uuid.
        if uuid = STATUS_CHARACTERISTIC_UUID then Inl (Error ''No Characteristics matching UUID'')
        else Inr exampleCharacteristic)\<rparr>"

definition exampleDevice :: BluetoothDevice where
  "exampleDevice =
     \<lparr>device_id = ''d1'', device_name = Some ''FingerSuit'',
      gatt = Some (Inr \<lparr>getPrimaryService = (\<lambda>uuid. Inr exampleService)\<rparr>)\<rparr>"

definition exampleBluetooth :: Bluetooth where
  "exampleBluetooth = Some (\<lambda>deviceName. Inr exampleDevice)"

definition exampleVibration :: "number \<Rightarrow> VibrationConfig" where
  "exampleVibration f = \<lparr>intensity = 1, frequency = f, pattern = ''sharp'', duration = 100\<rparr>"

definition exampleTemperature :: "number \<Rightarrow> TemperatureConfig" where
  "exampleTemperature t = \<lparr>target = t, rampTime = 70000, holdTime = 300\<rparr>"

definition emptyProfile :: HapticProfile where
  "emptyProfile =
     \<lparr>profile_vibration = None, profile_temperature = None,
      profile_duration = 400, profile_intensity = 0.9\<rparr>"

text \<open>
  A detector configuration; one record of the raw output, with its box, its objectness
  and the score of class 0 ('person'), the other 79 scores being 0; and the outputs used
  below.
\<close>

definition exampleConfig :: YOLOConfig where
  "exampleConfig =
     \<lparr>modelUrl = ''/models/yolo11n.onnx'', confidenceThreshold = 0.5, nmsThreshold = 0.4,
      targetClasses = [''person'', ''cup'', ''bottle''], inputSize = 2\<rparr>"

definition exampleRecord ::
  "number \<Rightarrow> number \<Rightarrow> number \<Rightarrow> number \<Rightarrow> number \<Rightarrow> number \<Rightarrow> number list" where
  "exampleRecord cx cy w h objectness score = [cx, cy, w, h, objectness, score] @ replicate 79 0"

definition boundaryOutput :: "number list" where
  "boundaryOutput = exampleRecord 320 240 100 50 0.5 1 @ exampleRecord 100 100 20 20 0.49999 1"

definition logitOutput :: "number list" where
  "logitOutput = exampleRecord 320 240 100 50 0.25 2"








definition exampleCanvas :: Canvas where
  "exampleCanvas imageData n = Inr (replicate (4 * n * n) 128)"

definition exampleImage :: ImageData where
  "exampleImage = \<lparr>image_width = 4, image_height = 2, image_data = replicate 32 255\<rparr>"

definition failingSession :: InferenceSession where
  "failingSession = \<lparr>run = (\<lambda>images. Inl (Error ''inference failed''))\<rparr>"

definition exampleDetector :: "InferenceSession \<Rightarrow> YOLO11Detector" where
  "exampleDetector s = \<lparr>session = Some s, config = exampleConfig, isInitialized = True\<rparr>"

section \<open>Properties of the protocol framer\<close>

lemma ToIntegerOrInfinity_of_int: "ToIntegerOrInfinity (of_int k) = k"
  by (simp add: ToIntegerOrInfinity_def)

lemma fold_uint_sum: "fold (\<lambda>b sum. sum + uint b) data a = a + sum_list (map uint data)"
  by (induction data arbitrary: a) simp_all

lemma checksum_byte:
  "uint (word_of_int (ToIntegerOrInfinity (calculateChecksum data)) :: u8)
     = sum_list (map uint data) mod 256"
proof -
  have "(255 :: int) = mask 8"
    by (simp add: mask_eq_exp_minus_1)
  then have "sum_list (map uint data) AND 255 = sum_list (map uint data) mod 2 ^ 8"
    by (simp only: take_bit_eq_mask [symmetric] take_bit_eq_mod)
  then show ?thesis
    by (simp add: calculateChecksum_def fold_uint_sum ToIntegerOrInfinity_of_int uint_word_of_int)
qed

lemma length_setUint8: "length (setUint8 view i v) = length view"
  by (simp add: setUint8_def)

lemma length_setInt8: "length (setInt8 view i v) = length view"
  by (simp add: setInt8_def)

lemma length_setUint16: "length (setUint16 view i v le) = length view"
  by (simp add: setUint16_def Let_def)

text \<open>Writing the checksum of the bytes before it into the last place of a buffer.\<close>

lemma close_frame:
  assumes "length view = Suc n"
  shows "length (setUint8 view n (calculateChecksum (take n view))) = Suc n"
    and "uint (last (setUint8 view n (calculateChecksum (take n view))))
           = sum_list (map uint (butlast (setUint8 view n (calculateChecksum (take n view))))) mod 256"
proof -
  let ?f = "setUint8 view n (calculateChecksum (take n view))"
  show len: "length ?f = Suc n"
    using assms by (simp add: length_setUint8)
  have "?f \<noteq> []"
    using len by auto
  then have "last ?f = ?f ! n"
    using len by (simp add: last_conv_nth)
  also have "\<dots> = word_of_int (ToIntegerOrInfinity (calculateChecksum (take n view)))"
    using assms by (simp add: setUint8_def)
  finally have l: "uint (last ?f) = sum_list (map uint (take n view)) mod 256"
    by (simp only: checksum_byte)
  have "butlast ?f = take n ?f"
    using len by (simp add: butlast_conv_take)
  also have "\<dots> = take n view"
    by (simp add: setUint8_def)
  finally show "uint (last ?f) = sum_list (map uint (butlast ?f)) mod 256"
    using l by simp
qed

text \<open>
  Claim C1. Every command frame the controller builds ends in its checksum: the
  vibration and the temperature frame have 8 bytes, the stop-all frame has 2, and in each
  the last byte is the sum of all the bytes before it, modulo 256. In particular the
  vibration frame for intensity 1.0, frequency 200, duration 100 and pattern 'sharp' is
  01 FF C8 00 64 00 01 2D, whose byte 7 is the sum of bytes 0 to 6 cut to 8 bits
  (557 mod 256 = 45).
\<close>

theorem command_frames_end_in_checksum:
  "length (vibrationCommand v) = 8
   \<and> uint (last (vibrationCommand v)) = sum_list (map uint (butlast (vibrationCommand v))) mod 256
   \<and> length (temperatureCommand t) = 8
   \<and> uint (last (temperatureCommand t)) = sum_list (map uint (butlast (temperatureCommand t))) mod 256
   \<and> length stopAllCommand = 2
   \<and> uint (last stopAllCommand) = sum_list (map uint (butlast stopAllCommand)) mod 256
   \<and> vibrationCommand \<lparr>intensity = 1, frequency = 200, pattern = ''sharp'', duration = 100\<rparr>
       = [1, 255, 200, 0, 100, 0, 1, 45]
   \<and> uint (45 :: u8) = sum_list (map uint [1, 255, 200, 0, 100, 0, 1 :: u8]) mod 256"
proof -
  define pv where "pv =
    setUint8 (setUint16 (setUint16 (setUint8 (setUint8 (replicate 8 0) 0 (CommandType_code VIBRATION))
      1 (Math_floor (intensity v * 255))) 2 (frequency v) True) 4 (duration v) True)
      6 (getPatternCode (pattern v))"
  have lv: "length pv = Suc 7"
    by (simp add: pv_def length_setUint8 length_setUint16)
  have ev: "vibrationCommand v = setUint8 pv 7 (calculateChecksum (take 7 pv))"
    by (simp add: vibrationCommand_def pv_def Let_def)
  define pt where "pt =
    setUint8 (setUint16 (setUint16 (setInt8 (setUint8 (replicate 8 0) 0 (CommandType_code TEMPERATURE))
      1 (target t)) 2 (rampTime t) True) 4 (holdTime t) True) 6 0"
  have lt: "length pt = Suc 7"
    by (simp add: pt_def length_setUint8 length_setInt8 length_setUint16)
  have et: "temperatureCommand t = setUint8 pt 7 (calculateChecksum (take 7 pt))"
    by (simp add: temperatureCommand_def pt_def Let_def)
  define ps where "ps = setUint8 (replicate 2 0) 0 (CommandType_code STOP_ALL)"
  have ls: "length ps = Suc 1"
    by (simp add: ps_def length_setUint8)
  have es: "stopAllCommand = setUint8 ps 1 (calculateChecksum (take 1 ps))"
    by (simp add: stopAllCommand_def ps_def Let_def)
  have ex: "vibrationCommand \<lparr>intensity = 1, frequency = 200, pattern = ''sharp'', duration = 100\<rparr>
       = [1, 255, 200, 0, 100, 0, 1, 45]"
    by code_simp
  have sm: "uint (45 :: u8) = sum_list (map uint [1, 255, 200, 0, 100, 0, 1 :: u8]) mod 256"
    by simp
  from close_frame [OF lv] close_frame [OF lt] close_frame [OF ls] ex sm
  show ?thesis
    unfolding ev [symmetric] et [symmetric] es [symmetric] by simp
qed

section \<open>Properties of the device session manager\<close>

text \<open>
  Claim C7. A send that the guard stops returns false and leaves the controller as it
  was, and so makes no transport write and emits no event: \<open>sendVibration\<close> when
  the device record has the vibration capability off (whether connected or not), and
  \<open>sendVibration\<close> and \<open>sendTemperature\<close> when the controller is not connected.
\<close>

theorem sends_gated_by_capability_and_connection:
  assumes "deviceInfo this1 = Some d" and "\<not> vibration (capabilities d)"
    and "\<not> isConnected this2"
  shows "sendVibration this1 v = (False, this1)
         \<and> written (snd (sendVibration this1 v)) = written this1
         \<and> sendVibration this2 v = (False, this2)
         \<and> sendTemperature this2 t = (False, this2)
         \<and> written (snd (sendVibration this2 v)) = written this2
         \<and> written (snd (sendTemperature this2 t)) = written this2"
  using assms by (simp add: sendVibration_def sendTemperature_def supportsVibration_def)

theorem sends_gated_by_capability_and_connection_witness:
  "isConnected (exampleController True False)
   \<and> deviceInfo (exampleController True False) = Some (exampleInfo False)
   \<and> \<not> vibration (capabilities (exampleInfo False))
   \<and> characteristics (exampleController True False) VIBRATION_CHARACTERISTIC_UUID \<noteq> None
   \<and> \<not> isConnected (exampleController False True)
   \<and> sendVibration (exampleController True False) (exampleVibration 200)
       = (False, exampleController True False)
   \<and> sendVibration (exampleController False True) (exampleVibration 200)
       = (False, exampleController False True)
   \<and> sendTemperature (exampleController False True) (exampleTemperature 18)
       = (False, exampleController False True)"
  using sends_gated_by_capability_and_connection
    [of "exampleController True False" "exampleInfo False" "exampleController False True"
        "exampleVibration 200" "exampleTemperature 18"]
  by (simp add: exampleController_def exampleInfo_def new_HapticController_def
      VIBRATION_CHARACTERISTIC_UUID_def TEMPERATURE_CHARACTERISTIC_UUID_def)

text \<open>
  Claim C10. For a profile with neither a vibration nor a temperature sub-config,
  \<open>sendHapticFeedback\<close> returns true and leaves the controller as it was (no write,
  no event), whatever the connection state and the capabilities: no sub-send is made, and
  \<open>every\<close> of the empty list of results is true.
\<close>

theorem empty_profile_succeeds_without_write:
  assumes "profile_vibration p = None" and "profile_temperature p = None"
  shows "sendHapticFeedback this p = (True, this)"
  using assms by (simp add: sendHapticFeedback_def)

theorem empty_profile_succeeds_without_write_witness:
  "profile_vibration emptyProfile = None
   \<and> profile_temperature emptyProfile = None
   \<and> sendHapticFeedback new_HapticController emptyProfile = (True, new_HapticController)
   \<and> sendHapticFeedback (exampleController True True) emptyProfile
       = (True, exampleController True True)"
  using empty_profile_succeeds_without_write [of emptyProfile new_HapticController]
    empty_profile_succeeds_without_write [of emptyProfile "exampleController True True"]
  by (simp add: emptyProfile_def)

subsection \<open>Values outside the range of their field\<close>

lemma div_256_small: "0 \<le> (x::int) \<Longrightarrow> x < 65536 \<Longrightarrow> (x div 256) mod 256 = x div 256"
  by (simp add: div_less_iff_less_mult)

text \<open>The two bytes that \<open>setUint16\<close> stores make up the 16-bit value, low byte first.\<close>

lemma u16_bytes:
  "uint (ucast w :: u8) + 256 * uint (ucast (drop_bit 8 w) :: u8) = uint (w :: 16 word)"
proof -
  have a: "uint (ucast w :: u8) = uint w mod 256"
    by (simp add: unsigned_ucast_eq take_bit_eq_mod)
  have b: "uint (drop_bit 8 w) = uint w div 256"
    by (simp add: unsigned_drop_bit_eq drop_bit_eq_div take_bit_eq_mod uint_div_distrib)
  have "uint w < 65536"
    using uint_bounded [of w] by simp
  then have c: "(uint w div 256) mod 256 = uint w div 256"
    by (intro div_256_small) simp_all
  have "uint (ucast (drop_bit 8 w) :: u8) = uint (drop_bit 8 w) mod 256"
    by (simp add: unsigned_ucast_eq take_bit_eq_mod)
  with a b c show ?thesis by simp
qed

lemma ToIntegerOrInfinity_small: "ToIntegerOrInfinity 1 = 1" "ToIntegerOrInfinity 2 = 2" "ToIntegerOrInfinity 0 = 0"
  by (simp_all add: ToIntegerOrInfinity_def)

lemma list_update_numeral: "(x # xs)[numeral k := v] = x # xs[pred_numeral k := v]"
  by (simp add: numeral_eq_Suc)

lemma replicate_numeral: "replicate (numeral k) x = x # replicate (pred_numeral k) x"
  by (simp add: numeral_eq_Suc)

lemma take_numeral: "take (numeral k) (x # xs) = x # take (pred_numeral k) xs"
  by (simp add: numeral_eq_Suc)

text \<open>The bytes of the two frames before the checksum, field by field.\<close>

lemma vibrationCommand_bytes:
  "take 7 (vibrationCommand v) =
     [1, word_of_int \<lfloor>intensity v * 255\<rfloor>,
      ucast (word_of_int (ToIntegerOrInfinity (frequency v)) :: 16 word),
      ucast (drop_bit 8 (word_of_int (ToIntegerOrInfinity (frequency v)) :: 16 word)),
      ucast (word_of_int (ToIntegerOrInfinity (duration v)) :: 16 word),
      ucast (drop_bit 8 (word_of_int (ToIntegerOrInfinity (duration v)) :: 16 word)),
      word_of_int (ToIntegerOrInfinity (getPatternCode (pattern v)))]"
  by (simp add: vibrationCommand_def Let_def setUint8_def setUint16_def Math_floor_def
      ToIntegerOrInfinity_of_int ToIntegerOrInfinity_small list_update_numeral replicate_numeral
      take_numeral del: drop_bit_word_numeral)

lemma temperatureCommand_bytes:
  "take 7 (temperatureCommand t) =
     [2, word_of_int (ToIntegerOrInfinity (target t)),
      ucast (word_of_int (ToIntegerOrInfinity (rampTime t)) :: 16 word),
      ucast (drop_bit 8 (word_of_int (ToIntegerOrInfinity (rampTime t)) :: 16 word)),
      ucast (word_of_int (ToIntegerOrInfinity (holdTime t)) :: 16 word),
      ucast (drop_bit 8 (word_of_int (ToIntegerOrInfinity (holdTime t)) :: 16 word)),
      0]"
  by (simp add: temperatureCommand_def Let_def setUint8_def setInt8_def setUint16_def
      ToIntegerOrInfinity_small list_update_numeral replicate_numeral
      take_numeral del: drop_bit_word_numeral)

lemma vibrationCommand_70000:
  "vibrationCommand (exampleVibration 70000) = [1, 255, 112, 17, 100, 0, 1, 230]"
  by code_simp

lemma temperatureCommand_200:
  "temperatureCommand (exampleTemperature 200) = [2, 200, 112, 17, 44, 1, 0, 120]"
  by code_simp

text \<open>
  Claim C2, as the code has it. The encode never fails for the size of a value. On a
  connected controller whose device has the capability and whose characteristic is there,
  \<open>sendVibration\<close> and \<open>sendTemperature\<close> hand the frame to the transport for every
  config, and the frame holds each value, cut to an integer, modulo the size of its field:
  frequency, duration, rampTime and holdTime modulo 65536 in two bytes, low byte first,
  and the target temperature modulo 256 in one byte.
\<close>

theorem out_of_range_fields_wrap:
  assumes "isConnected this" and "deviceInfo this = Some d"
    and "vibration (capabilities d)" and "temperature (capabilities d)"
    and "characteristics this VIBRATION_CHARACTERISTIC_UUID = Some cv"
    and "characteristics this TEMPERATURE_CHARACTERISTIC_UUID = Some ct"
  shows "written (snd (sendVibration this v))
           = written this @ [(VIBRATION_CHARACTERISTIC_UUID, vibrationCommand v)]
    \<and> written (snd (sendTemperature this t))
           = written this @ [(TEMPERATURE_CHARACTERISTIC_UUID, temperatureCommand t)]
    \<and> uint (vibrationCommand v ! 2) + 256 * uint (vibrationCommand v ! 3)
           = ToIntegerOrInfinity (frequency v) mod 65536
    \<and> uint (vibrationCommand v ! 4) + 256 * uint (vibrationCommand v ! 5)
           = ToIntegerOrInfinity (duration v) mod 65536
    \<and> uint (temperatureCommand t ! 1) = ToIntegerOrInfinity (target t) mod 256
    \<and> uint (temperatureCommand t ! 2) + 256 * uint (temperatureCommand t ! 3)
           = ToIntegerOrInfinity (rampTime t) mod 65536
    \<and> uint (temperatureCommand t ! 4) + 256 * uint (temperatureCommand t ! 5)
           = ToIntegerOrInfinity (holdTime t) mod 65536"
proof -
  have wv: "written (snd (sendVibration this v))
           = written this @ [(VIBRATION_CHARACTERISTIC_UUID, vibrationCommand v)]"
    using assms
    by (cases "writeValue cv (vibrationCommand v)")
      (simp_all add: sendVibration_def supportsVibration_def Let_def emit_def)
  have wt: "written (snd (sendTemperature this t))
           = written this @ [(TEMPERATURE_CHARACTERISTIC_UUID, temperatureCommand t)]"
    using assms
    by (cases "writeValue ct (temperatureCommand t)")
      (simp_all add: sendTemperature_def supportsTemperature_def Let_def emit_def)
  have nv: "vibrationCommand v ! i = take 7 (vibrationCommand v) ! i" if "i < 7" for i
    using that by simp
  have nt: "temperatureCommand t ! i = take 7 (temperatureCommand t) ! i" if "i < 7" for i
    using that by simp
  have f: "uint (vibrationCommand v ! 2) + 256 * uint (vibrationCommand v ! 3)
           = ToIntegerOrInfinity (frequency v) mod 65536"
    using u16_bytes [of "word_of_int (ToIntegerOrInfinity (frequency v))"]
    by (simp add: nv vibrationCommand_bytes uint_word_of_int del: drop_bit_word_numeral)
  have du: "uint (vibrationCommand v ! 4) + 256 * uint (vibrationCommand v ! 5)
           = ToIntegerOrInfinity (duration v) mod 65536"
    using u16_bytes [of "word_of_int (ToIntegerOrInfinity (duration v))"]
    by (simp add: nv vibrationCommand_bytes uint_word_of_int del: drop_bit_word_numeral)
  have ta: "uint (temperatureCommand t ! 1) = ToIntegerOrInfinity (target t) mod 256"
    by (simp add: nt temperatureCommand_bytes uint_word_of_int)
  have ra: "uint (temperatureCommand t ! 2) + 256 * uint (temperatureCommand t ! 3)
           = ToIntegerOrInfinity (rampTime t) mod 65536"
    using u16_bytes [of "word_of_int (ToIntegerOrInfinity (rampTime t))"]
    by (simp add: nt temperatureCommand_bytes uint_word_of_int del: drop_bit_word_numeral)
  have ho: "uint (temperatureCommand t ! 4) + 256 * uint (temperatureCommand t ! 5)
           = ToIntegerOrInfinity (holdTime t) mod 65536"
    using u16_bytes [of "word_of_int (ToIntegerOrInfinity (holdTime t))"]
    by (simp add: nt temperatureCommand_bytes uint_word_of_int del: drop_bit_word_numeral)
  from wv wt f du ta ra ho show ?thesis
    by blast
qed

theorem out_of_range_fields_wrap_witness:
  "isConnected (exampleController True True)
   \<and> deviceInfo (exampleController True True) = Some (exampleInfo True)
   \<and> vibration (capabilities (exampleInfo True)) \<and> temperature (capabilities (exampleInfo True))
   \<and> characteristics (exampleController True True) VIBRATION_CHARACTERISTIC_UUID
       = Some exampleCharacteristic
   \<and> characteristics (exampleController True True) TEMPERATURE_CHARACTERISTIC_UUID
       = Some exampleCharacteristic
   \<and> written (snd (sendVibration (exampleController True True) (exampleVibration 70000)))
       = [(VIBRATION_CHARACTERISTIC_UUID, vibrationCommand (exampleVibration 70000))]
   \<and> uint (vibrationCommand (exampleVibration 70000) ! 2)
       + 256 * uint (vibrationCommand (exampleVibration 70000) ! 3) = 4464
   \<and> uint (temperatureCommand (exampleTemperature 200) ! 1) = 200"
  using out_of_range_fields_wrap
    [of "exampleController True True" "exampleInfo True" exampleCharacteristic exampleCharacteristic
        "exampleVibration 70000" "exampleTemperature 200"]
  by (simp add: exampleController_def exampleInfo_def new_HapticController_def
      exampleVibration_def exampleTemperature_def ToIntegerOrInfinity_def
      VIBRATION_CHARACTERISTIC_UUID_def TEMPERATURE_CHARACTERISTIC_UUID_def)

text \<open>
  Claim C2 as the spec states it fails. A vibration config with frequency 70000, above
  65535, and a temperature config with target 200, above 127, and rampTime 70000 are
  encoded without failure: both sends return true, and the frames handed to the transport
  hold 70000 mod 65536 = 4464 (bytes 70 11, low byte first) and the target byte C8,
  which is -56 as a signed byte.
\<close>

theorem out_of_range_values_are_transmitted:
  "65535 < frequency (exampleVibration 70000)
   \<and> sendVibration (exampleController True True) (exampleVibration 70000)
       = (True, (exampleController True True)
            \<lparr>written := [(VIBRATION_CHARACTERISTIC_UUID, [1, 255, 112, 17, 100, 0, 1, 230])]\<rparr>)
   \<and> 127 < target (exampleTemperature 200)
   \<and> 65535 < rampTime (exampleTemperature 200)
   \<and> sendTemperature (exampleController True True) (exampleTemperature 200)
       = (True, (exampleController True True)
            \<lparr>written := [(TEMPERATURE_CHARACTERISTIC_UUID, [2, 200, 112, 17, 44, 1, 0, 120])]\<rparr>)
   \<and> sint (200 :: u8) = - 56"
proof -
  have range: "65535 < frequency (exampleVibration 70000)"
    "127 < target (exampleTemperature 200)" "65535 < rampTime (exampleTemperature 200)"
    by (simp_all add: exampleVibration_def exampleTemperature_def)
  have sends: "sendVibration (exampleController True True) (exampleVibration 70000)
       = (True, (exampleController True True)
            \<lparr>written := [(VIBRATION_CHARACTERISTIC_UUID, [1, 255, 112, 17, 100, 0, 1, 230])]\<rparr>)"
    "sendTemperature (exampleController True True) (exampleTemperature 200)
       = (True, (exampleController True True)
            \<lparr>written := [(TEMPERATURE_CHARACTERISTIC_UUID, [2, 200, 112, 17, 44, 1, 0, 120])]\<rparr>)"
    by (simp_all add: sendVibration_def sendTemperature_def supportsVibration_def
        supportsTemperature_def exampleController_def exampleInfo_def new_HapticController_def
        exampleCharacteristic_def Let_def vibrationCommand_70000 temperatureCommand_200
        VIBRATION_CHARACTERISTIC_UUID_def TEMPERATURE_CHARACTERISTIC_UUID_def)
  have "sint (200 :: u8) = - 56"
    by simp
  with range sends show ?thesis
    by blast
qed

subsection \<open>Connecting to a device without status characteristic\<close>

lemma fetchDeviceInfo_without_status:
  "characteristics this STATUS_CHARACTERISTIC_UUID = None \<Longrightarrow> fetchDeviceInfo this = Inr this"
  by (simp add: fetchDeviceInfo_def)

text \<open>
  Claim C8. The code does not do what the claim says. A new controller connects to a
  device whose service has the vibration, temperature and battery characteristics but no
  status characteristic: \<open>connect\<close> returns true and the controller is connected, but
  \<open>fetchDeviceInfo\<close> has assigned nothing, the device record is still \<open>null\<close>, and
  the \<open>connected\<close> event carries \<open>null\<close>. The default record, with vibration and
  temperature, is assigned only in the \<open>catch\<close> block, when the status characteristic is
  there and reading it fails.
\<close>

theorem connect_without_status_leaves_deviceInfo_null:
  "fst (connect exampleBluetooth new_HapticController ''FingerSuit'') = True
   \<and> isConnected (snd (connect exampleBluetooth new_HapticController ''FingerSuit''))
   \<and> characteristics (snd (connect exampleBluetooth new_HapticController ''FingerSuit''))
        STATUS_CHARACTERISTIC_UUID = None
   \<and> characteristics (snd (connect exampleBluetooth new_HapticController ''FingerSuit''))
        VIBRATION_CHARACTERISTIC_UUID \<noteq> None
   \<and> deviceInfo (snd (connect exampleBluetooth new_HapticController ''FingerSuit'')) = None
   \<and> emitted (snd (connect exampleBluetooth new_HapticController ''FingerSuit''))
        = [connected_event None]"
  by (simp add: connect_def exampleBluetooth_def exampleDevice_def exampleService_def
      new_HapticController_def initializeCharacteristics_def characteristicUUIDs_def
      fetchDeviceInfo_def startBatteryMonitoring_def emit_def Let_def
      VIBRATION_CHARACTERISTIC_UUID_def TEMPERATURE_CHARACTERISTIC_UUID_def
      BATTERY_CHARACTERISTIC_UUID_def STATUS_CHARACTERISTIC_UUID_def HAPTIC_SERVICE_UUID_def)

section \<open>Properties of double arithmetic\<close>








lemma roundTiesToEven_of_int: "roundTiesToEven (of_int n) = n"
  by (simp add: roundTiesToEven_def)













section \<open>Properties of non-maximum suppression\<close>










section \<open>Properties of the IoU\<close>


















section \<open>Properties of the threshold filter\<close>

text \<open>
  The loop over the class scores finds the largest of them, or 0 when none is positive.
\<close>

lemma findMaxClass_fold:
  "fst (fold (\<lambda>j (maxClassConfidence, maxClassIndex).
             (let classConfidence = output ! (offset + 5 + j)
              in if classConfidence > maxClassConfidence then (classConfidence, j)
                 else (maxClassConfidence, maxClassIndex)))
          [a ..< b] (m, k))
   = Max (insert m ((\<lambda>j. output ! (offset + 5 + j)) ` {a ..< b}))"
proof (induction b)
  case 0
  then show ?case by simp
next
  case (Suc b)
  show ?case
  proof (cases "a \<le> b")
    case True
    define M where "M = Max (insert m ((\<lambda>j. output ! (offset + 5 + j)) ` {a ..< b}))"
    from True have u: "[a ..< Suc b] = [a ..< b] @ [b]"
      by simp
    from True have "{a ..< Suc b} = insert b {a ..< b}"
      by auto
    then have "insert m ((\<lambda>j. output ! (offset + 5 + j)) ` {a ..< Suc b})
          = insert (output ! (offset + 5 + b)) (insert m ((\<lambda>j. output ! (offset + 5 + j)) ` {a ..< b}))"
      by (simp only: image_insert insert_commute)
    then have "Max (insert m ((\<lambda>j. output ! (offset + 5 + j)) ` {a ..< Suc b}))
          = max (output ! (offset + 5 + b)) M"
      unfolding M_def
      using Max_insert [of "insert m ((\<lambda>j. output ! (offset + 5 + j)) ` {a ..< b})"
          "output ! (offset + 5 + b)"]
      by simp
    moreover have "fst (fold (\<lambda>j (maxClassConfidence, maxClassIndex).
             (let classConfidence = output ! (offset + 5 + j)
              in if classConfidence > maxClassConfidence then (classConfidence, j)
                 else (maxClassConfidence, maxClassIndex)))
          [a ..< Suc b] (m, k)) = (if output ! (offset + 5 + b) > M then output ! (offset + 5 + b) else M)"
      unfolding u using Suc [folded M_def] by (simp add: split_def Let_def)
    ultimately show ?thesis
      by (auto simp: max_def)
  next
    case False
    then show ?thesis by simp
  qed
qed

lemma findMaxClass_Max:
  "fst (findMaxClass output offset) = Max (insert 0 ((\<lambda>j. output ! (offset + 5 + j)) ` {0 ..< 80}))"
  unfolding findMaxClass_def by (rule findMaxClass_fold)

lemma findMaxClass_le_1:
  assumes "\<forall>j<80. output ! (offset + 5 + j) \<le> 1"
  shows "fst (findMaxClass output offset) \<le> 1"
  unfolding findMaxClass_Max using assms by (subst Max_le_iff) auto

lemma findMaxClass_nonneg: "0 \<le> fst (findMaxClass output offset)"
  unfolding findMaxClass_Max by (subst Max_ge_iff) auto

lemma exampleConfig_threshold: "confidenceThreshold exampleConfig = 1 / 2"
  by (simp add: exampleConfig_def)

lemma boundaryOutput_values:
  "length boundaryOutput = 170" "boundaryOutput ! 4 = 1 / 2" "boundaryOutput ! 89 = 49999 / 100000"
  "findMaxClass boundaryOutput 0 = (1, 0)" "findMaxClass boundaryOutput 85 = (1, 0)"
  by code_simp+

lemma logitOutput_values:
  "length logitOutput = 85" "logitOutput ! 4 = 1 / 4" "findMaxClass logitOutput 0 = (2, 0)"
  by code_simp+

lemma logitOutput_dropped:
  "decodeCandidate exampleConfig (\<lambda>k. 1000) 0 logitOutput 1 1 0 = LowObjectness"
  "postprocessResults exampleConfig (\<lambda>k. 1000) logitOutput 1 1 = []"
  by code_simp+

text \<open>
  Claim C4, as the code has it. The loop filters twice on the threshold: first on the
  objectness alone, then on the combined confidence, the objectness times the largest
  class score. For a candidate of the output, a combined confidence strictly below the
  threshold drops it at one of the two checks; a combined confidence exactly equal to the
  threshold passes both checks provided the objectness itself is not below the threshold.
  That proviso holds by itself when the objectness is not negative and no class score is
  above 1.
\<close>

theorem threshold_filter_boundary:
  assumes "i < length output div 85"
  shows
  "(output ! (i * 85 + 4) * fst (findMaxClass output (i * 85)) < confidenceThreshold cfg
      \<longrightarrow> decodeCandidate cfg now k output sx sy i \<in> {LowObjectness, LowConfidence})
   \<and> (output ! (i * 85 + 4) * fst (findMaxClass output (i * 85)) = confidenceThreshold cfg
        \<and> confidenceThreshold cfg \<le> output ! (i * 85 + 4)
      \<longrightarrow> decodeCandidate cfg now k output sx sy i \<notin> {LowObjectness, LowConfidence})
   \<and> (output ! (i * 85 + 4) * fst (findMaxClass output (i * 85)) = confidenceThreshold cfg
        \<and> 0 \<le> output ! (i * 85 + 4) \<and> (\<forall>j<80. output ! (i * 85 + 5 + j) \<le> 1)
      \<longrightarrow> confidenceThreshold cfg \<le> output ! (i * 85 + 4))"
proof -
  have a: "decodeCandidate cfg now k output sx sy i \<in> {LowObjectness, LowConfidence}"
    if "output ! (i * 85 + 4) * fst (findMaxClass output (i * 85)) < confidenceThreshold cfg"
    using that by (simp add: decodeCandidate_def Let_def split_def)
  have b: "decodeCandidate cfg now k output sx sy i \<notin> {LowObjectness, LowConfidence}"
    if "output ! (i * 85 + 4) * fst (findMaxClass output (i * 85)) = confidenceThreshold cfg"
      and "confidenceThreshold cfg \<le> output ! (i * 85 + 4)"
    using that by (simp add: decodeCandidate_def Let_def split_def)
  have c: "confidenceThreshold cfg \<le> output ! (i * 85 + 4)"
    if e: "output ! (i * 85 + 4) * fst (findMaxClass output (i * 85)) = confidenceThreshold cfg"
      and n: "0 \<le> output ! (i * 85 + 4)" and l: "\<forall>j<80. output ! (i * 85 + 5 + j) \<le> 1"
  proof -
    have "fst (findMaxClass output (i * 85)) \<le> 1"
      using l by (rule findMaxClass_le_1)
    then have "output ! (i * 85 + 4) * fst (findMaxClass output (i * 85)) \<le> output ! (i * 85 + 4) * 1"
      using n by (intro mult_left_mono)
    with e show ?thesis by simp
  qed
  from a b c show ?thesis by blast
qed

theorem threshold_filter_boundary_witness:
  "0 < length boundaryOutput div 85
   \<and> boundaryOutput ! 4 * fst (findMaxClass boundaryOutput 0) = confidenceThreshold exampleConfig
   \<and> confidenceThreshold exampleConfig \<le> boundaryOutput ! 4
   \<and> decodeCandidate exampleConfig (\<lambda>k. 1000) 0 boundaryOutput 1 1 0
       \<notin> {LowObjectness, LowConfidence}
   \<and> 1 < length boundaryOutput div 85
   \<and> boundaryOutput ! 89 * fst (findMaxClass boundaryOutput 85) < confidenceThreshold exampleConfig
   \<and> decodeCandidate exampleConfig (\<lambda>k. 1000) 2 boundaryOutput 1 1 1
       \<in> {LowObjectness, LowConfidence}"
  using threshold_filter_boundary [of 0 boundaryOutput exampleConfig "\<lambda>k. 1000" 0 1 1]
    threshold_filter_boundary [of 1 boundaryOutput exampleConfig "\<lambda>k. 1000" 2 1 1]
  by (simp add: boundaryOutput_values exampleConfig_threshold)

text \<open>
  Claim C4 as the spec states it fails. With threshold 0.5, a candidate with objectness
  0.25 and largest class score 2 (a score that is not a probability) has combined
  confidence exactly 0.5, and it is dropped, by the check on the objectness alone: the
  output of this one candidate gives no detection.
\<close>

theorem objectness_prefilter_drops_boundary_candidate:
  "0 < length logitOutput div 85
   \<and> logitOutput ! 4 * fst (findMaxClass logitOutput 0) = confidenceThreshold exampleConfig
   \<and> decodeCandidate exampleConfig (\<lambda>k. 1000) 0 logitOutput 1 1 0 = LowObjectness
   \<and> postprocessResults exampleConfig (\<lambda>k. 1000) logitOutput 1 1 = []"
  by (simp add: logitOutput_values logitOutput_dropped exampleConfig_threshold)

section \<open>Determinism of the postprocessing\<close>












section \<open>Properties of the detector session manager\<close>

text \<open>
  Claim C3. \<open>detect\<close> raises exactly when the detector is not ready, that is, when it
  is not initialized or has no session. When it is ready it returns a list; and when the
  preprocessing fails, or the inference fails, or the inference gives no tensor
  \<open>output0\<close> for the postprocessing to read, that list is empty.
\<close>

theorem detect_raises_iff_not_ready:
  "((\<exists>e. detect canvas now this img = Inl e) \<longleftrightarrow> \<not> (isInitialized this \<and> session this \<noteq> None))
   \<and> (isInitialized this \<and> session this \<noteq> None \<longrightarrow> (\<exists>ds. detect canvas now this img = Inr ds))
   \<and> (isInitialized this \<and> session this = Some s
        \<and> (preprocessImage canvas (config this) img = Inl e1
            \<or> (\<exists>p. preprocessImage canvas (config this) img = Inr p
                   \<and> (run s (tensor p) = Inl e2
                       \<or> (\<exists>r. run s (tensor p) = Inr r \<and> r ''output0'' = None))))
       \<longrightarrow> detect canvas now this img = Inr [])"
proof -
  have a: "(\<exists>e. detect canvas now this img = Inl e) \<longleftrightarrow> \<not> (isInitialized this \<and> session this \<noteq> None)"
    by (auto simp: detect_def split: option.splits sum.splits)
  have b: "\<exists>ds. detect canvas now this img = Inr ds"
    if "isInitialized this \<and> session this \<noteq> None"
    using that a by (cases "detect canvas now this img") auto
  have c: "detect canvas now this img = Inr []"
    if "isInitialized this" and "session this = Some s"
      and "preprocessImage canvas (config this) img = Inl e1
            \<or> (\<exists>p. preprocessImage canvas (config this) img = Inr p
                   \<and> (run s (tensor p) = Inl e2
                       \<or> (\<exists>r. run s (tensor p) = Inr r \<and> r ''output0'' = None)))"
    using that by (auto simp: detect_def)
  from a b c show ?thesis by blast
qed

theorem detect_raises_iff_not_ready_witness:
  "\<not> isInitialized (new_YOLO11Detector exampleConfig)
   \<and> (\<exists>e. detect exampleCanvas (\<lambda>k. 1000) (new_YOLO11Detector exampleConfig) exampleImage = Inl e)
   \<and> isInitialized (exampleDetector failingSession)
   \<and> session (exampleDetector failingSession) = Some failingSession
   \<and> (\<exists>p. preprocessImage exampleCanvas (config (exampleDetector failingSession)) exampleImage = Inr p
          \<and> run failingSession (tensor p) = Inl (Error ''inference failed''))
   \<and> detect exampleCanvas (\<lambda>k. 1000) (exampleDetector failingSession) exampleImage = Inr []"
  using detect_raises_iff_not_ready
      [of exampleCanvas "\<lambda>k. 1000" "new_YOLO11Detector exampleConfig" exampleImage]
    detect_raises_iff_not_ready
      [of exampleCanvas "\<lambda>k. 1000" "exampleDetector failingSession" exampleImage failingSession
        "Error ''none''" "Error ''inference failed''"]
  by (simp add: new_YOLO11Detector_def exampleDetector_def failingSession_def
      preprocessImage_def exampleCanvas_def Let_def)

end
